theory Spec2Isabelle
  imports Complex_Main "HOL-Library.Word"
begin

section \<open>The OCR endpoint of server.js: submit a document, then poll for the result\<close>

text \<open>
  The handler of \<^verbatim>\<open>POST /api/ocr\<close> (server.js, lines 43 to 112) talks to a remote
  document-analysis provider: one submission request, then up to 120 status queries, each
  after a pause of 1500 ms. The model below follows the handler statement by statement.
  Everything the handler does to the outside is recorded, in order, in a trace of events:
  the submission, each pause, each status query, and each response sent to the caller.
  What the provider answers is an input of the model; every request to the provider is
  taken to settle, with an answer or with an exception.
\<close>

subsection \<open>JavaScript values\<close>

text \<open>
  The values \<^verbatim>\<open>JSON.parse\<close> produces. A number is the double the parser produced; the
  handler only ever tests whether it is zero, so a finite one is kept as a rational and
  the two infinities (the parser yields them on an overflowing literal) apart. An object is
  the list of its own properties, each key once. \<^verbatim>\<open>undefined\<close> is \<open>None\<close> of
  \<open>json option\<close>.
\<close>

type_synonym byte = "8 word"

datatype number = Finite rat | PosInfinity | NegInfinity

datatype json =
    JNull
  | JBool bool
  | JNum number
  | JStr string
  | JArr "json list"
  | JObj "(string \<times> json) list"

text \<open>
  An exception value. The handler only renders it with \<^verbatim>\<open>String(e)\<close>: for a rejected
  \<^verbatim>\<open>fetch\<close>, a body that cannot be read or is not JSON, the rendering is carried as it
  is; a \<^verbatim>\<open>TypeError\<close> carries its message.
\<close>

datatype exn = Thrown string | TypeError string

fun String_exn :: "exn \<Rightarrow> string" where
  "String_exn (Thrown s) = s"
| "String_exn (TypeError m) = ''TypeError: '' @ m"

text \<open>Truthiness, as \<^verbatim>\<open>!x\<close>, \<^verbatim>\<open>x || y\<close> and \<^verbatim>\<open>if (x)\<close> test it.\<close>

fun truthy_number :: "number \<Rightarrow> bool" where
  "truthy_number (Finite q) = (q \<noteq> 0)"
| "truthy_number PosInfinity = True"
| "truthy_number NegInfinity = True"

fun truthy :: "json \<Rightarrow> bool" where
  "truthy JNull = False"
| "truthy (JBool b) = b"
| "truthy (JNum n) = truthy_number n"
| "truthy (JStr s) = (s \<noteq> [])"
| "truthy (JArr xs) = True"
| "truthy (JObj kvs) = True"

fun truthy_opt :: "json option \<Rightarrow> bool" where
  "truthy_opt None = False"
| "truthy_opt (Some v) = truthy v"

text \<open>A string that may be \<^verbatim>\<open>undefined\<close> (an environment variable, a header, a field).\<close>

fun truthy_str :: "string option \<Rightarrow> bool" where
  "truthy_str None = False"
| "truthy_str (Some s) = (s \<noteq> [])"

text \<open>
  Reading a property \<^verbatim>\<open>v.k\<close> of a value that is neither \<^verbatim>\<open>null\<close> nor
  \<^verbatim>\<open>undefined\<close>. An object gives its own property or \<^verbatim>\<open>undefined\<close>; a boolean, a
  number, a string and an array give \<^verbatim>\<open>undefined\<close> for the three names the handler reads
  (\<^verbatim>\<open>status\<close>, \<^verbatim>\<open>analyzeResult\<close>, \<^verbatim>\<open>content\<close>), none of which is a property of a
  built-in prototype.
\<close>

fun get_prop :: "json \<Rightarrow> string \<Rightarrow> json option" where
  "get_prop (JObj kvs) k = map_of kvs k"
| "get_prop v k = None"

text \<open>
  \<^verbatim>\<open>v.k\<close>: reading a property of \<^verbatim>\<open>null\<close> throws a TypeError (the message is V8's).
\<close>

fun member :: "json \<Rightarrow> string \<Rightarrow> exn + json option" where
  "member JNull k =
     Inl (TypeError (''Cannot read properties of null (reading '' @ [CHR 0x27] @ k @ [CHR 0x27] @ '')''))"
| "member v k = Inr (get_prop v k)"

text \<open>\<^verbatim>\<open>v?.k\<close>: \<^verbatim>\<open>undefined\<close> when \<open>v\<close> is \<^verbatim>\<open>null\<close> or \<^verbatim>\<open>undefined\<close>.\<close>

fun opt_member :: "json option \<Rightarrow> string \<Rightarrow> json option" where
  "opt_member None k = None"
| "opt_member (Some JNull) k = None"
| "opt_member (Some v) k = get_prop v k"

text \<open>\<^verbatim>\<open>x || d\<close>.\<close>

fun or_else :: "json option \<Rightarrow> json \<Rightarrow> json" where
  "or_else None d = d"
| "or_else (Some v) d = (if truthy v then v else d)"

subsection \<open>Configuration, request, provider\<close>

text \<open>The two environment variables read at start-up, and the fixed API version.\<close>

record config =
  AZURE_DI_ENDPOINT :: "string option"
  AZURE_DI_KEY :: "string option"

definition AZURE_API_VERSION :: string where
  "AZURE_API_VERSION = ''2024-11-30''"

text \<open>
  The request as the upload middleware hands it over: \<^verbatim>\<open>req.file\<close> is absent when no
  file part was sent; its \<^verbatim>\<open>buffer\<close> holds the bytes and \<^verbatim>\<open>mimetype\<close> the content type
  of the file part. The middleware always sets both, the \<^verbatim>\<open>mimetype\<close> to a string that
  is not empty; the two fields are optional here because the handler tests them.
\<close>

record upload =
  buffer :: "byte list option"
  mimetype :: "string option"

record request =
  req_file :: "upload option"

text \<open>The submission request the handler sends (line 58).\<close>

record submit_request =
  url :: string
  subscription_key :: string
  content_type :: string
  body :: "byte list"

text \<open>
  The provider's answer to the submission: its status, the body as \<^verbatim>\<open>text()\<close> reads it,
  and \<^verbatim>\<open>headers.get\<close>. \<open>SubmitThrows\<close> is a rejected \<^verbatim>\<open>fetch\<close> or a body that cannot be
  read; both end in the handler's \<^verbatim>\<open>catch\<close>.
\<close>

record submit_response =
  status :: nat
  body_text :: string
  headers_get :: "string \<Rightarrow> string option"

datatype submit_outcome = SubmitThrows exn | SubmitResponse submit_response

text \<open>
  The provider's answer to a status query: the parsed JSON body, or an exception (a
  rejected \<^verbatim>\<open>fetch\<close>, or a body \<^verbatim>\<open>json()\<close> cannot parse). The provider's answers to
  the status queries are a function of the query's index, starting at 0.
\<close>

datatype poll_outcome = PollThrows exn | PollData json

subsection \<open>Events and responses\<close>

datatype event =
    Submit submit_request
  | Sleep nat
  | Query string string
  | Respond nat json

definition resp_missing_env :: event where
  "resp_missing_env = Respond 500 (JObj [(''error'', JStr ''Missing Azure DI env vars'')])"

definition resp_no_file :: event where
  "resp_no_file = Respond 400 (JObj [(''error'', JStr ''No file uploaded'')])"

definition resp_submit_failed :: "nat \<Rightarrow> string \<Rightarrow> event" where
  "resp_submit_failed st txt =
     Respond 500 (JObj [(''error'', JStr ''Azure DI submit failed''),
                        (''status'', JNum (Finite (of_nat st))),
                        (''details'', JStr txt)])"

definition resp_missing_location :: event where
  "resp_missing_location = Respond 500 (JObj [(''error'', JStr ''Missing Operation-Location'')])"

definition resp_failed :: "json \<Rightarrow> event" where
  "resp_failed data = Respond 500 (JObj [(''error'', JStr ''Azure DI failed''), (''details'', data)])"

definition resp_timeout :: event where
  "resp_timeout = Respond 504 (JObj [(''error'', JStr ''Azure DI timeout'')])"

definition resp_text :: "json \<Rightarrow> event" where
  "resp_text t = Respond 200 (JObj [(''text'', t)])"

definition resp_exception :: "exn \<Rightarrow> event" where
  "resp_exception e =
     Respond 500 (JObj [(''error'', JStr ''Azure DI exception''), (''details'', JStr (String_exn e))])"

subsection \<open>The handler\<close>

text \<open>\<^verbatim>\<open>AZURE_DI_ENDPOINT.replace(/\/$/, '')\<close>: one slash at the very end is dropped.\<close>

definition strip_trailing_slash :: "string \<Rightarrow> string" where
  "strip_trailing_slash s = (if s \<noteq> [] \<and> last s = CHR ''/'' then butlast s else s)"

definition submitUrl :: "string \<Rightarrow> string" where
  "submitUrl ep =
     strip_trailing_slash ep @ ''/documentintelligence/documentModels/prebuilt-read:analyze''
       @ ''?api-version='' @ AZURE_API_VERSION"

text \<open>
  How a run of statements ends: it falls through with a value, it has returned (the
  response is already in the trace), or it has thrown.
\<close>

datatype 'a completion = Normal 'a | Returned | Threw exn

text \<open>
  The loop of lines 83 to 99, from iteration \<open>i\<close> on, with the trace so far. It falls
  through with \<^verbatim>\<open>finalData\<close>: the data of the \<^verbatim>\<open>succeeded\<close> answer after
  \<^verbatim>\<open>break\<close>, or \<^verbatim>\<open>null\<close> (\<open>None\<close>) when the 120 iterations are used up. The property
  \<^verbatim>\<open>data.status\<close> is read once here; reading a property of parsed JSON twice gives the
  same value.
\<close>

function poll_loop ::
  "string \<Rightarrow> string \<Rightarrow> (nat \<Rightarrow> poll_outcome) \<Rightarrow> nat \<Rightarrow> event list
     \<Rightarrow> json option completion \<times> event list" where
  "poll_loop opLocation key provider i tr =
     (if i < 120 then
        (case provider i of
           PollThrows e \<Rightarrow> (Threw e, tr @ [Sleep 1500, Query opLocation key])
         | PollData data \<Rightarrow>
             (case member data ''status'' of
                Inl e \<Rightarrow> (Threw e, tr @ [Sleep 1500, Query opLocation key])
              | Inr st \<Rightarrow>
                  if st = Some (JStr ''succeeded'')
                  then (Normal (Some data), tr @ [Sleep 1500, Query opLocation key])
                  else if st = Some (JStr ''failed'')
                  then (Returned, tr @ [Sleep 1500, Query opLocation key, resp_failed data])
                  else poll_loop opLocation key provider (i + 1)
                         (tr @ [Sleep 1500, Query opLocation key])))
      else (Normal None, tr))"
  by pat_completeness auto
termination
  by (relation "measure (\<lambda>(opLocation, key, provider, i, tr). 120 - i)") auto

declare poll_loop.simps [simp del]

text \<open>\<^verbatim>\<open>s || d\<close> on a string that may be \<^verbatim>\<open>undefined\<close>.\<close>

fun str_or :: "string option \<Rightarrow> string \<Rightarrow> string" where
  "str_or None d = d"
| "str_or (Some s) d = (if s \<noteq> [] then s else d)"

text \<open>
  The request of line 58: the URL built from the endpoint, the key, the content type
  \<^verbatim>\<open>req.file.mimetype || 'application/pdf'\<close> and the buffer as the body.
\<close>

definition submission :: "string \<Rightarrow> string \<Rightarrow> upload \<Rightarrow> byte list \<Rightarrow> submit_request" where
  "submission endpoint key f buf =
     \<lparr> url = submitUrl endpoint,
       subscription_key = key,
       content_type = str_or (mimetype f) ''application/pdf'',
       body = buf \<rparr>"

text \<open>
  Lines 45 to 79, the checks and step 1 (submit): the run falls through with the operation
  location and the key, or it has returned a response, or it has thrown.
  \<^verbatim>\<open>!AZURE_DI_ENDPOINT\<close> holds of an unset and of an empty variable;
  \<^verbatim>\<open>!req.file?.buffer\<close> holds when there is no file or the file has no buffer (a buffer
  is an object, so an empty one is truthy); \<^verbatim>\<open>!opLocation\<close> holds of a missing and of an
  empty header.
\<close>

definition submit ::
  "config \<Rightarrow> request \<Rightarrow> submit_outcome \<Rightarrow> (string \<times> string) completion \<times> event list" where
  "submit cfg req submitted =
     (case AZURE_DI_ENDPOINT cfg of
        None \<Rightarrow> (Returned, [resp_missing_env])
      | Some endpoint \<Rightarrow>
     (case AZURE_DI_KEY cfg of
        None \<Rightarrow> (Returned, [resp_missing_env])
      | Some key \<Rightarrow>
          if endpoint = [] \<or> key = [] then (Returned, [resp_missing_env])
          else
     (case req_file req of
        None \<Rightarrow> (Returned, [resp_no_file])
      | Some f \<Rightarrow>
     (case buffer f of
        None \<Rightarrow> (Returned, [resp_no_file])
      | Some buf \<Rightarrow>
     (case submitted of
        SubmitThrows e \<Rightarrow> (Threw e, [Submit (submission endpoint key f buf)])
      | SubmitResponse submitResp \<Rightarrow>
          if status submitResp \<noteq> 202
          then (Returned,
                [Submit (submission endpoint key f buf),
                 resp_submit_failed (status submitResp) (body_text submitResp)])
          else
     (case headers_get submitResp ''operation-location'' of
        None \<Rightarrow> (Returned, [Submit (submission endpoint key f buf), resp_missing_location])
      | Some opLocation \<Rightarrow>
          if opLocation = []
          then (Returned, [Submit (submission endpoint key f buf), resp_missing_location])
          else (Normal (opLocation, key), [Submit (submission endpoint key f buf)])))))))"

text \<open>
  Lines 81 to 106, step 2 (poll until succeeded): the loop, the timeout answer when
  \<^verbatim>\<open>finalData\<close> is still \<^verbatim>\<open>null\<close>, and otherwise the answer with the text
  \<^verbatim>\<open>finalData?.analyzeResult?.content || ''\<close>.
\<close>

definition extract_text :: "json option \<Rightarrow> json" where
  "extract_text finalData =
     or_else (opt_member (opt_member finalData ''analyzeResult'') ''content'') (JStr [])"

definition poll ::
  "string \<Rightarrow> string \<Rightarrow> (nat \<Rightarrow> poll_outcome) \<Rightarrow> event list \<Rightarrow> unit completion \<times> event list" where
  "poll opLocation key provider tr =
     (case poll_loop opLocation key provider 0 tr of
        (Threw e, tr') \<Rightarrow> (Threw e, tr')
      | (Returned, tr') \<Rightarrow> (Returned, tr')
      | (Normal finalData, tr') \<Rightarrow>
          if \<not> truthy_opt finalData then (Returned, tr' @ [resp_timeout])
          else (Returned, tr' @ [resp_text (extract_text finalData)]))"

text \<open>The body of the \<^verbatim>\<open>try\<close> block (lines 45 to 106): step 1, then step 2.\<close>

definition try_block ::
  "config \<Rightarrow> request \<Rightarrow> submit_outcome \<Rightarrow> (nat \<Rightarrow> poll_outcome)
     \<Rightarrow> unit completion \<times> event list" where
  "try_block cfg req submitted provider =
     (case submit cfg req submitted of
        (Threw e, tr) \<Rightarrow> (Threw e, tr)
      | (Returned, tr) \<Rightarrow> (Returned, tr)
      | (Normal (opLocation, key), tr) \<Rightarrow> poll opLocation key provider tr)"

text \<open>
  The handler: the \<^verbatim>\<open>try\<close> block, and the \<^verbatim>\<open>catch\<close> of lines 107 to 111, which
  answers 500 with the rendering of whatever was thrown. The result is the trace of the
  whole run.
\<close>

definition ocr_handler ::
  "config \<Rightarrow> request \<Rightarrow> submit_outcome \<Rightarrow> (nat \<Rightarrow> poll_outcome) \<Rightarrow> event list" where
  "ocr_handler cfg req submitted provider =
     (case try_block cfg req submitted provider of
        (Threw e, tr) \<Rightarrow> tr @ [resp_exception e]
      | (Returned, tr) \<Rightarrow> tr
      | (Normal u, tr) \<Rightarrow> tr)"

subsection \<open>Reading a trace\<close>

text \<open>The status queries, the submissions and the responses of a trace.\<close>

fun is_query :: "event \<Rightarrow> bool" where
  "is_query (Query u k) = True"
| "is_query e = False"

fun is_respond :: "event \<Rightarrow> bool" where
  "is_respond (Respond c b) = True"
| "is_respond e = False"

fun submitted_by :: "event \<Rightarrow> submit_request list" where
  "submitted_by (Submit r) = [r]"
| "submitted_by e = []"

definition queries :: "event list \<Rightarrow> nat" where
  "queries tr = length (filter is_query tr)"

definition submissions :: "event list \<Rightarrow> submit_request list" where
  "submissions tr = concat (map submitted_by tr)"

definition responses :: "event list \<Rightarrow> event list" where
  "responses tr = filter is_respond tr"

text \<open>\<open>n\<close> rounds of the loop: a pause and a status query each.\<close>

definition rounds :: "string \<Rightarrow> string \<Rightarrow> nat \<Rightarrow> event list" where
  "rounds opLocation key n = concat (replicate n [Sleep 1500, Query opLocation key])"

subsection \<open>Reading a provider's answer\<close>

text \<open>
  An answer carries the status \<open>s\<close> when it is data whose \<^verbatim>\<open>status\<close> property is the
  string \<open>s\<close>; it is terminal when it carries \<^verbatim>\<open>'succeeded'\<close> or \<^verbatim>\<open>'failed'\<close>. A
  running answer is data other than \<^verbatim>\<open>null\<close> that is not terminal: an unknown status, a
  status that is no string, no status at all.
\<close>

definition has_status :: "string \<Rightarrow> poll_outcome \<Rightarrow> bool" where
  "has_status s a =
     (case a of PollThrows e \<Rightarrow> False
      | PollData data \<Rightarrow> get_prop data ''status'' = Some (JStr s))"

definition terminal :: "poll_outcome \<Rightarrow> bool" where
  "terminal a = (has_status ''succeeded'' a \<or> has_status ''failed'' a)"

definition running :: "poll_outcome \<Rightarrow> bool" where
  "running a =
     (case a of PollThrows e \<Rightarrow> False
      | PollData data \<Rightarrow> data \<noteq> JNull \<and> \<not> terminal a)"

text \<open>The exception of \<^verbatim>\<open>data.status\<close> on a body that is \<^verbatim>\<open>null\<close>.\<close>

definition null_status_error :: exn where
  "null_status_error =
     TypeError (''Cannot read properties of null (reading '' @ [CHR 0x27] @ ''status'' @ [CHR 0x27] @ '')'')"

text \<open>
  The result field of a succeeded answer, \<^verbatim>\<open>analyzeResult.content\<close>: present when the
  answer has an \<^verbatim>\<open>analyzeResult\<close> that has a \<^verbatim>\<open>content\<close>.
\<close>

definition content_of :: "json \<Rightarrow> json option" where
  "content_of data =
     (case get_prop data ''analyzeResult'' of None \<Rightarrow> None | Some a \<Rightarrow> get_prop a ''content'')"

text \<open>The status code of a response.\<close>

fun code_of :: "event \<Rightarrow> nat option" where
  "code_of (Respond c b) = Some c"
| "code_of e = None"

text \<open>The error label of a response: the \<^verbatim>\<open>error\<close> property of its body.\<close>

fun error_label :: "event \<Rightarrow> json option" where
  "error_label (Respond c b) = get_prop b ''error''"
| "error_label e = None"

subsection \<open>A concrete run\<close>

text \<open>
  The scenario of the specification: the provider accepts the submission with the
  reference \<^verbatim>\<open>op-123\<close>; it then answers \<^verbatim>\<open>running\<close> a number of times and gives a
  last answer ever after.
\<close>

definition example_config :: config where
  "example_config =
     \<lparr> AZURE_DI_ENDPOINT = Some ''https://di.example.com/'', AZURE_DI_KEY = Some ''secret'' \<rparr>"

definition example_upload :: upload where
  "example_upload = \<lparr> buffer = Some [0x89, 0x50, 0x4E, 0x47], mimetype = Some ''image/png'' \<rparr>"

definition example_request :: request where
  "example_request = \<lparr> req_file = Some example_upload \<rparr>"

definition example_submission :: submit_request where
  "example_submission =
     \<lparr> url = ''https://di.example.com/documentintelligence/documentModels/prebuilt-read:analyze?api-version=2024-11-30'',
       subscription_key = ''secret'',
       content_type = ''image/png'',
       body = [0x89, 0x50, 0x4E, 0x47] \<rparr>"

definition accepted_with :: "string option \<Rightarrow> submit_outcome" where
  "accepted_with loc =
     SubmitResponse \<lparr> status = 202, body_text = [],
       headers_get = (\<lambda>h. if h = ''operation-location'' then loc else None) \<rparr>"

definition running_body :: json where
  "running_body = JObj [(''status'', JStr ''running'')]"

definition succeeded_body :: "json \<Rightarrow> json" where
  "succeeded_body c =
     JObj [(''status'', JStr ''succeeded''), (''analyzeResult'', JObj [(''content'', c)])]"

definition failed_body :: json where
  "failed_body =
     JObj [(''status'', JStr ''failed''), (''error'', JObj [(''code'', JStr ''InvalidRequest'')])]"

definition answers_after :: "nat \<Rightarrow> poll_outcome \<Rightarrow> nat \<Rightarrow> poll_outcome" where
  "answers_after n a i = (if i < n then PollData running_body else a)"

section \<open>The loop and the two steps\<close>

subsection \<open>Rounds and traces\<close>

text \<open>
  A round adds one query and no response or submission to a trace.
\<close>

lemma rounds_0: "rounds u k 0 = []"
  by (simp add: rounds_def)

lemma rounds_Suc: "rounds u k (Suc n) = rounds u k n @ [Sleep 1500, Query u k]"
  by (induction n) (simp_all add: rounds_def)

lemma rounds_add: "rounds u k (a + b) = rounds u k a @ rounds u k b"
  by (simp add: rounds_def replicate_add)

lemma queries_rounds: "queries (tr @ rounds u k n) = queries tr + n"
  by (induction n) (simp_all add: rounds_Suc rounds_0 queries_def)

lemma queries_respond: "queries (tr @ [Respond c b]) = queries tr"
  by (simp add: queries_def)

lemma responses_rounds: "responses (tr @ rounds u k n) = responses tr"
  by (induction n) (simp_all add: rounds_Suc rounds_0 responses_def)

lemma submissions_rounds: "submissions (tr @ rounds u k n) = submissions tr"
  by (induction n) (simp_all add: rounds_Suc rounds_0 submissions_def)

lemma submissions_respond: "submissions (tr @ [Respond c b]) = submissions tr"
  by (simp add: submissions_def)

lemmas resp_defs =
  resp_missing_env_def resp_no_file_def resp_submit_failed_def resp_missing_location_def
  resp_failed_def resp_timeout_def resp_text_def resp_exception_def

subsection \<open>One iteration of the loop\<close>

text \<open>
  What the loop does at iteration \<open>i\<close>, by the kind of the provider's answer.
\<close>

lemma running_member:
  "running (PollData d) \<Longrightarrow>
     \<exists>st. member d ''status'' = Inr st \<and> st \<noteq> Some (JStr ''succeeded'') \<and> st \<noteq> Some (JStr ''failed'')"
  by (cases d) (simp_all add: running_def terminal_def has_status_def)

lemma poll_loop_running:
  assumes "i < 120" and "running (provider i)"
  shows "poll_loop u k provider i tr = poll_loop u k provider (Suc i) (tr @ [Sleep 1500, Query u k])"
proof -
  from assms(2) obtain d where d: "provider i = PollData d"
    by (cases "provider i") (simp_all add: running_def)
  with assms(2) obtain st where "member d ''status'' = Inr st"
    "st \<noteq> Some (JStr ''succeeded'')" "st \<noteq> Some (JStr ''failed'')"
    using running_member by metis
  with assms(1) d show ?thesis
    by (subst poll_loop.simps) simp
qed

lemma poll_loop_succeeded:
  assumes "i < 120" and "provider i = PollData d" and "has_status ''succeeded'' (provider i)"
  shows "poll_loop u k provider i tr = (Normal (Some d), tr @ [Sleep 1500, Query u k])"
proof -
  from assms(2,3) have "member d ''status'' = Inr (Some (JStr ''succeeded''))"
    by (cases d) (simp_all add: has_status_def)
  with assms(1,2) show ?thesis by (subst poll_loop.simps) simp
qed

lemma poll_loop_failed:
  assumes "i < 120" and "provider i = PollData d" and "has_status ''failed'' (provider i)"
  shows "poll_loop u k provider i tr = (Returned, tr @ [Sleep 1500, Query u k, resp_failed d])"
proof -
  from assms(2,3) have "member d ''status'' = Inr (Some (JStr ''failed''))"
    by (cases d) (simp_all add: has_status_def)
  with assms(1,2) show ?thesis by (subst poll_loop.simps) simp
qed

lemma poll_loop_throws:
  assumes "i < 120" and "provider i = PollThrows e"
  shows "poll_loop u k provider i tr = (Threw e, tr @ [Sleep 1500, Query u k])"
  using assms by (subst poll_loop.simps) simp

lemma poll_loop_null:
  assumes "i < 120" and "provider i = PollData JNull"
  shows "poll_loop u k provider i tr =
           (Threw (TypeError (''Cannot read properties of null (reading '' @ [CHR 0x27] @ ''status'' @ [CHR 0x27] @ '')'')),
            tr @ [Sleep 1500, Query u k])"
  using assms by (subst poll_loop.simps) simp

lemma poll_loop_exhausted: "poll_loop u k provider 120 tr = (Normal None, tr)"
  by (subst poll_loop.simps) simp

subsection \<open>Step 2, up to the first answer that is not running\<close>

text \<open>
  As long as the answers are running ones the loop goes round; the first answer of another
  kind, or the end of the 120 iterations, decides how step 2 ends.
\<close>

lemma poll_loop_run:
  assumes "\<forall>j<n. running (provider j)" and "n \<le> 120"
  shows "poll_loop u k provider 0 tr = poll_loop u k provider n (tr @ rounds u k n)"
  using assms
proof (induction n)
  case 0
  show ?case by (simp add: rounds_0)
next
  case (Suc n)
  then have "poll_loop u k provider 0 tr = poll_loop u k provider n (tr @ rounds u k n)"
    by simp
  also have "\<dots> = poll_loop u k provider (Suc n) ((tr @ rounds u k n) @ [Sleep 1500, Query u k])"
    using Suc.prems by (intro poll_loop_running) simp_all
  finally show ?case by (simp add: rounds_Suc)
qed

lemma first_stop:
  fixes P :: "nat \<Rightarrow> bool"
  shows "(\<forall>j<n. P j) \<or> (\<exists>k<n. \<not> P k \<and> (\<forall>j<k. P j))"
proof (cases "\<forall>j<n. P j")
  case True
  then show ?thesis by simp
next
  case False
  then obtain k0 where k0: "k0 < n \<and> \<not> P k0" by auto
  define m where "m = (LEAST k. k < n \<and> \<not> P k)"
  have m: "m < n \<and> \<not> P m"
    unfolding m_def using k0 by (rule LeastI)
  have "P j" if "j < m" for j
  proof (rule ccontr)
    assume "\<not> P j"
    with that m have "j < n \<and> \<not> P j" by simp
    then have "m \<le> j" unfolding m_def by (rule Least_le)
    with that show False by simp
  qed
  with m show ?thesis by blast
qed

lemma not_running_cases:
  assumes "\<not> running a"
  shows "(\<exists>e. a = PollThrows e) \<or> a = PollData JNull
         \<or> (\<exists>d. a = PollData d \<and> has_status ''succeeded'' a)
         \<or> (\<exists>d. a = PollData d \<and> has_status ''failed'' a)"
  using assms by (cases a) (auto simp add: running_def terminal_def)

lemma succeeded_truthy:
  "has_status s (PollData d) \<Longrightarrow> truthy_opt (Some d)"
  by (cases d) (simp_all add: has_status_def)

lemma poll_succeeded:
  assumes "k < 120" and "\<forall>j<k. running (provider j)"
    and "provider k = PollData d" and "has_status ''succeeded'' (provider k)"
  shows "poll u key provider tr =
           (Returned, tr @ rounds u key (Suc k) @ [resp_text (extract_text (Some d))])"
proof -
  have "poll_loop u key provider 0 tr = poll_loop u key provider k (tr @ rounds u key k)"
    using assms(1,2) by (intro poll_loop_run) simp_all
  also have "\<dots> = (Normal (Some d), (tr @ rounds u key k) @ [Sleep 1500, Query u key])"
    using assms(1,3,4) by (rule poll_loop_succeeded)
  finally have "poll_loop u key provider 0 tr = (Normal (Some d), tr @ rounds u key (Suc k))"
    by (simp add: rounds_Suc)
  moreover have "truthy_opt (Some d)"
    using assms(3,4) succeeded_truthy by metis
  ultimately show ?thesis by (simp add: poll_def)
qed

lemma poll_failed:
  assumes "k < 120" and "\<forall>j<k. running (provider j)"
    and "provider k = PollData d" and "has_status ''failed'' (provider k)"
  shows "poll u key provider tr = (Returned, tr @ rounds u key (Suc k) @ [resp_failed d])"
proof -
  have "poll_loop u key provider 0 tr = poll_loop u key provider k (tr @ rounds u key k)"
    using assms(1,2) by (intro poll_loop_run) simp_all
  also have "\<dots> = (Returned, (tr @ rounds u key k) @ [Sleep 1500, Query u key, resp_failed d])"
    using assms(1,3,4) by (rule poll_loop_failed)
  finally have "poll_loop u key provider 0 tr = (Returned, tr @ rounds u key (Suc k) @ [resp_failed d])"
    by (simp add: rounds_Suc)
  then show ?thesis by (simp add: poll_def)
qed

lemma poll_throws:
  assumes "k < 120" and "\<forall>j<k. running (provider j)" and "provider k = PollThrows e"
  shows "poll u key provider tr = (Threw e, tr @ rounds u key (Suc k))"
proof -
  have "poll_loop u key provider 0 tr = poll_loop u key provider k (tr @ rounds u key k)"
    using assms(1,2) by (intro poll_loop_run) simp_all
  also have "\<dots> = (Threw e, (tr @ rounds u key k) @ [Sleep 1500, Query u key])"
    using assms(1,3) by (rule poll_loop_throws)
  finally show ?thesis by (simp add: poll_def rounds_Suc)
qed

lemma poll_null:
  assumes "k < 120" and "\<forall>j<k. running (provider j)" and "provider k = PollData JNull"
  shows "poll u key provider tr = (Threw null_status_error, tr @ rounds u key (Suc k))"
proof -
  have "poll_loop u key provider 0 tr = poll_loop u key provider k (tr @ rounds u key k)"
    using assms(1,2) by (intro poll_loop_run) simp_all
  also have "\<dots> = (Threw null_status_error, (tr @ rounds u key k) @ [Sleep 1500, Query u key])"
    unfolding null_status_error_def using assms(1,3) by (rule poll_loop_null)
  finally show ?thesis by (simp add: poll_def rounds_Suc)
qed

lemma poll_timeout:
  assumes "\<forall>j<120. running (provider j)"
  shows "poll u key provider tr = (Returned, tr @ rounds u key 120 @ [resp_timeout])"
proof -
  have "poll_loop u key provider 0 tr = poll_loop u key provider 120 (tr @ rounds u key 120)"
    using assms by (intro poll_loop_run) simp_all
  also have "\<dots> = (Normal None, tr @ rounds u key 120)"
    by (rule poll_loop_exhausted)
  finally show ?thesis by (simp add: poll_def)
qed

subsection \<open>Step 1\<close>

text \<open>
  The ways step 1 can end, and what they leave in the trace.
\<close>

lemma submit_accepted:
  assumes "AZURE_DI_ENDPOINT cfg = Some endpoint" and "endpoint \<noteq> []"
    and "AZURE_DI_KEY cfg = Some key" and "key \<noteq> []"
    and "req_file req = Some f" and "buffer f = Some buf"
  shows "submit cfg req (SubmitResponse r) =
           (if status r \<noteq> 202
            then (Returned, [Submit (submission endpoint key f buf),
                             resp_submit_failed (status r) (body_text r)])
            else case headers_get r ''operation-location'' of
                   None \<Rightarrow> (Returned, [Submit (submission endpoint key f buf), resp_missing_location])
                 | Some loc \<Rightarrow>
                     if loc = []
                     then (Returned, [Submit (submission endpoint key f buf), resp_missing_location])
                     else (Normal (loc, key), [Submit (submission endpoint key f buf)]))"
  using assms by (simp add: submit_def)

lemma submit_thrown:
  assumes "AZURE_DI_ENDPOINT cfg = Some endpoint" and "endpoint \<noteq> []"
    and "AZURE_DI_KEY cfg = Some key" and "key \<noteq> []"
    and "req_file req = Some f" and "buffer f = Some buf"
  shows "submit cfg req (SubmitThrows e) = (Threw e, [Submit (submission endpoint key f buf)])"
  using assms by (simp add: submit_def)

lemma submit_cases:
  "(submit cfg req submitted = (Returned, [resp_missing_env]))
   \<or> (submit cfg req submitted = (Returned, [resp_no_file]))
   \<or> (\<exists>sub e. submit cfg req submitted = (Threw e, [Submit sub]))
   \<or> (\<exists>sub st txt. submit cfg req submitted = (Returned, [Submit sub, resp_submit_failed st txt]))
   \<or> (\<exists>sub. submit cfg req submitted = (Returned, [Submit sub, resp_missing_location]))
   \<or> (\<exists>sub u key. submit cfg req submitted = (Normal (u, key), [Submit sub]))"
  unfolding submit_def by (auto split: option.splits submit_outcome.splits)

lemma submit_no_query:
  assumes "submit cfg req submitted = (c, tr0)"
  shows "queries tr0 = 0"
  using submit_cases [of cfg req submitted] assms
  by (auto simp add: queries_def resp_defs)

lemma submissions_submit: "length (submissions (snd (submit cfg req submitted))) \<le> 1"
  using submit_cases [of cfg req submitted]
  by (auto simp add: submissions_def resp_defs)

subsection \<open>The whole handler\<close>

text \<open>
  The trace of a run: what step 1 left, then a number of rounds, then one response.
\<close>

lemma handler_after_submit:
  assumes "submit cfg req submitted = (Normal (u, key), tr0)"
  shows "ocr_handler cfg req submitted provider =
           (case poll u key provider tr0 of
              (Threw e, tr) \<Rightarrow> tr @ [resp_exception e]
            | (Returned, tr) \<Rightarrow> tr
            | (Normal x, tr) \<Rightarrow> tr)"
  using assms by (simp add: ocr_handler_def try_block_def)

lemma handler_polled:
  assumes "submit cfg req submitted = (Normal (u, key), tr0)"
  shows "((\<forall>j<120. running (provider j))
            \<and> ocr_handler cfg req submitted provider = tr0 @ rounds u key 120 @ [resp_timeout])
         \<or> (\<exists>k<120. \<not> running (provider k) \<and> (\<forall>j<k. running (provider j))
               \<and> (\<exists>r. ocr_handler cfg req submitted provider = tr0 @ rounds u key (Suc k) @ [r]
                     \<and> ((\<exists>d. r = resp_failed d) \<or> (\<exists>t. r = resp_text t)
                          \<or> (\<exists>e. r = resp_exception e))))"
proof -
  note run = handler_after_submit [OF assms, of provider]
  consider (all) "\<forall>j<120. running (provider j)"
    | (stop) k where "k < 120" "\<not> running (provider k)" "\<forall>j<k. running (provider j)"
    using first_stop [of 120 "\<lambda>j. running (provider j)"] by blast
  then show ?thesis
  proof cases
    case all
    then have "poll u key provider tr0 = (Returned, tr0 @ rounds u key 120 @ [resp_timeout])"
      by (rule poll_timeout)
    with run all show ?thesis by simp
  next
    case stop
    have "\<exists>r. ocr_handler cfg req submitted provider = tr0 @ rounds u key (Suc k) @ [r]
            \<and> ((\<exists>d. r = resp_failed d) \<or> (\<exists>t. r = resp_text t) \<or> (\<exists>e. r = resp_exception e))"
      using not_running_cases [OF stop(2)]
    proof (elim disjE exE conjE)
      fix e assume "provider k = PollThrows e"
      then have "poll u key provider tr0 = (Threw e, tr0 @ rounds u key (Suc k))"
        using stop(1,3) by (intro poll_throws)
      with run show ?thesis by auto
    next
      assume "provider k = PollData JNull"
      then have "poll u key provider tr0 = (Threw null_status_error, tr0 @ rounds u key (Suc k))"
        using stop(1,3) by (intro poll_null)
      with run show ?thesis by auto
    next
      fix d assume "provider k = PollData d" "has_status ''succeeded'' (provider k)"
      then have "poll u key provider tr0
          = (Returned, tr0 @ rounds u key (Suc k) @ [resp_text (extract_text (Some d))])"
        using stop(1,3) by (intro poll_succeeded)
      with run show ?thesis by auto
    next
      fix d assume "provider k = PollData d" "has_status ''failed'' (provider k)"
      then have "poll u key provider tr0 = (Returned, tr0 @ rounds u key (Suc k) @ [resp_failed d])"
        using stop(1,3) by (intro poll_failed)
      with run show ?thesis by auto
    qed
    with stop show ?thesis by blast
  qed
qed

lemma queries_polled:
  assumes "submit cfg req submitted = (c, tr0)" and "is_respond r"
  shows "queries (tr0 @ rounds u key n @ [r]) = n"
proof -
  from assms(2) obtain code b where "r = Respond code b" by (cases r) simp_all
  then have "queries (tr0 @ rounds u key n @ [r]) = queries ((tr0 @ rounds u key n) @ [Respond code b])"
    by simp
  also have "\<dots> = queries tr0 + n"
    unfolding queries_respond queries_rounds ..
  finally show ?thesis using submit_no_query [OF assms(1)] by simp
qed

lemma responses_polled:
  assumes "responses tr0 = []" and "is_respond r"
  shows "responses (tr0 @ rounds u key n @ [r]) = [r]"
proof -
  have "responses ((tr0 @ rounds u key n) @ [r]) = responses (tr0 @ rounds u key n) @ [r]"
    using assms(2) by (simp add: responses_def)
  then show ?thesis using assms(1) by (simp add: responses_rounds)
qed

lemma submissions_polled:
  assumes "is_respond r"
  shows "submissions (tr0 @ rounds u key n @ [r]) = submissions tr0"
proof -
  from assms obtain c b where "r = Respond c b" by (cases r) simp_all
  then have "submissions (tr0 @ rounds u key n @ [r]) = submissions ((tr0 @ rounds u key n) @ [Respond c b])"
    by simp
  then show ?thesis unfolding submissions_respond submissions_rounds .
qed

lemma handler_shape:
  "\<exists>tr0 c n r. submit cfg req submitted = (c, tr0)
      \<and> is_respond r \<and> n \<le> 120 \<and> (\<forall>j. Suc j < n \<longrightarrow> running (provider j))
      \<and> (ocr_handler cfg req submitted provider = tr0
             \<and> tr0 \<noteq> [] \<and> last tr0 = r \<and> responses tr0 = [r] \<and> n = 0
           \<or> (\<exists>u key. responses tr0 = []
                \<and> ocr_handler cfg req submitted provider = tr0 @ rounds u key n @ [r]))
      \<and> (r = resp_missing_env \<or> r = resp_no_file \<or> (\<exists>st txt. r = resp_submit_failed st txt)
           \<or> r = resp_missing_location \<or> (\<exists>e. r = resp_exception e)
           \<or> (\<exists>d. r = resp_failed d) \<or> r = resp_timeout \<or> (\<exists>t. r = resp_text t))"
proof -
  from submit_cases [of cfg req submitted]
  consider (early) tr0 r where "submit cfg req submitted = (Returned, tr0)"
        "tr0 \<noteq> []" "last tr0 = r" "responses tr0 = [r]"
        "r = resp_missing_env \<or> r = resp_no_file \<or> (\<exists>st txt. r = resp_submit_failed st txt)
           \<or> r = resp_missing_location"
    | (threw) sub e where "submit cfg req submitted = (Threw e, [Submit sub])"
    | (polls) sub u key where "submit cfg req submitted = (Normal (u, key), [Submit sub])"
    by (elim disjE exE) (auto simp add: responses_def resp_defs)
  then show ?thesis
  proof cases
    case early
    from early(1) have "ocr_handler cfg req submitted provider = tr0"
      by (simp add: ocr_handler_def try_block_def)
    moreover from early(5) have "is_respond r"
      by (auto simp add: resp_defs)
    ultimately show ?thesis using early
      by (intro exI [of _ tr0] exI [of _ Returned] exI [of _ 0] exI [of _ r]) auto
  next
    case threw
    have "ocr_handler cfg req submitted provider = [Submit sub] @ rounds [] [] 0 @ [resp_exception e]"
      using threw by (simp add: ocr_handler_def try_block_def rounds_0)
    moreover have "is_respond (resp_exception e)" "responses [Submit sub] = []"
      by (simp_all add: resp_exception_def responses_def)
    ultimately show ?thesis using threw
      by (intro exI [of _ "[Submit sub]"] exI [of _ "Threw e"] exI [of _ 0]
          exI [of _ "resp_exception e"]) blast
  next
    case polls
    have none: "responses [Submit sub] = []"
      by (simp add: responses_def)
    from handler_polled [OF polls, of provider]
    consider (all) "\<forall>j<120. running (provider j)"
        "ocr_handler cfg req submitted provider = [Submit sub] @ rounds u key 120 @ [resp_timeout]"
      | (stop) k r where "k < 120" "\<forall>j<k. running (provider j)"
          "ocr_handler cfg req submitted provider = [Submit sub] @ rounds u key (Suc k) @ [r]"
          "(\<exists>d. r = resp_failed d) \<or> (\<exists>t. r = resp_text t) \<or> (\<exists>e. r = resp_exception e)"
      by blast
    then show ?thesis
    proof cases
      case all
      have "is_respond resp_timeout" by (simp add: resp_timeout_def)
      with all none polls show ?thesis
        by (intro exI [of _ "[Submit sub]"] exI [of _ "Normal (u, key)"] exI [of _ 120]
            exI [of _ resp_timeout]) auto
    next
      case stop
      from stop(4) have "is_respond r" by (auto simp add: resp_defs)
      moreover from stop(1) have "Suc k \<le> 120" by simp
      moreover from stop(2) have "\<forall>j. Suc j < Suc k \<longrightarrow> running (provider j)" by simp
      ultimately show ?thesis using stop(3,4) none polls
        by (intro exI [of _ "[Submit sub]"] exI [of _ "Normal (u, key)"] exI [of _ "Suc k"]
            exI [of _ r]) blast
    qed
  qed
qed

lemma submissions_handler:
  "submissions (ocr_handler cfg req submitted provider) = submissions (snd (submit cfg req submitted))"
  using handler_shape [of cfg req submitted provider]
  by (elim exE conjE disjE) (simp_all add: submissions_polled)

lemma queries_handler:
  "\<exists>n\<le>120. queries (ocr_handler cfg req submitted provider) = n
      \<and> (\<forall>j. Suc j < n \<longrightarrow> running (provider j))"
proof -
  from handler_shape [of cfg req submitted provider]
  obtain tr0 c n r where s: "submit cfg req submitted = (c, tr0)"
    and r: "is_respond r" and n: "n \<le> 120" "\<forall>j. Suc j < n \<longrightarrow> running (provider j)"
    and h: "ocr_handler cfg req submitted provider = tr0 \<and> n = 0
            \<or> (\<exists>u key. ocr_handler cfg req submitted provider = tr0 @ rounds u key n @ [r])"
    by blast
  from h have "queries (ocr_handler cfg req submitted provider) = n"
    using submit_no_query [OF s] queries_polled [OF s r] by auto
  with n show ?thesis by blast
qed

subsection \<open>The text of the answer\<close>

text \<open>
  The two optional accesses read \<^verbatim>\<open>analyzeResult.content\<close>; the falsy values are four.
\<close>

lemma extract_text_content: "extract_text (Some d) = or_else (content_of d) (JStr [])"
proof (cases "get_prop d ''analyzeResult''")
  case None
  then show ?thesis by (cases d) (simp_all add: extract_text_def content_of_def)
next
  case (Some a)
  then have "opt_member (Some d) ''analyzeResult'' = Some a"
    by (cases d) simp_all
  moreover have "opt_member (Some a) ''content'' = get_prop a ''content''"
    by (cases a) simp_all
  ultimately show ?thesis using Some by (simp add: extract_text_def content_of_def)
qed

lemma truthy_iff: "truthy c \<longleftrightarrow> c \<notin> {JNull, JBool False, JNum (Finite 0), JStr []}"
proof (cases c)
  case (JNum n)
  then show ?thesis by (cases n) simp_all
qed simp_all

subsection \<open>The concrete run\<close>

text \<open>
  The scenario of the specification, evaluated.
\<close>

lemma submit_example:
  "submit example_config example_request (accepted_with (Some ''op-123''))
     = (Normal (''op-123'', ''secret''), [Submit example_submission])"
  by (simp add: submit_def example_config_def example_request_def example_upload_def
      accepted_with_def submission_def submitUrl_def strip_trailing_slash_def
      AZURE_API_VERSION_def example_submission_def)

lemma running_answers_after: "i < n \<Longrightarrow> running (answers_after n a i)"
  by (simp add: answers_after_def running_def terminal_def has_status_def running_body_def)

lemma not_terminal_before: "filter terminal (map (answers_after n a) [0..<n]) = []"
  by (simp add: filter_empty_conv answers_after_def terminal_def has_status_def running_body_def)

lemma example_run:
  "ocr_handler example_config example_request (accepted_with (Some ''op-123''))
       (answers_after 2 (PollData (succeeded_body (JStr ''Page 1: hello''))))
     = [Submit example_submission,
        Sleep 1500, Query ''op-123'' ''secret'',
        Sleep 1500, Query ''op-123'' ''secret'',
        Sleep 1500, Query ''op-123'' ''secret'',
        Respond 200 (JObj [(''text'', JStr ''Page 1: hello'')])]"
proof -
  let ?p = "answers_after 2 (PollData (succeeded_body (JStr ''Page 1: hello'')))"
  have "poll ''op-123'' ''secret'' ?p [Submit example_submission]
      = (Returned, [Submit example_submission] @ rounds ''op-123'' ''secret'' (Suc 2)
           @ [resp_text (extract_text (Some (succeeded_body (JStr ''Page 1: hello''))))])"
    by (rule poll_succeeded)
      (simp_all add: running_answers_after, simp_all add: answers_after_def has_status_def succeeded_body_def)
  then show ?thesis
    using handler_after_submit [OF submit_example, of ?p]
    by (simp add: rounds_def extract_text_def succeeded_body_def resp_text_def numeral_3_eq_3)
qed

section \<open>The claims\<close>

text \<open>
  C1, as amended. When the first terminal answer is \<^verbatim>\<open>succeeded\<close>, it is one of the
  first 120 answers (the answer number \<open>k\<close>, counted from 0, with \<open>k < 120\<close>) and only
  running answers came before it, the handler stops at that answer: it has made exactly
  \<open>k + 1\<close> status queries, each after a pause, and then answers 200 with the text taken
  from that answer, its \<^verbatim>\<open>analyzeResult.content\<close>, or the empty string when that is
  missing or falsy. A \<^verbatim>\<open>succeeded\<close> answer that would come after 120 running ones is
  never asked for: the run below ends in the timeout response.
\<close>

theorem first_succeeded_returns_text:
  assumes "submit cfg req submitted = (Normal (opLocation, key), tr0)"
    and "k < 120"
    and "\<forall>j<k. running (provider j)"
    and "provider k = PollData d"
    and "has_status ''succeeded'' (provider k)"
  shows "ocr_handler cfg req submitted provider
           = tr0 @ rounds opLocation key (Suc k) @ [resp_text (or_else (content_of d) (JStr []))]
         \<and> queries (ocr_handler cfg req submitted provider) = Suc k"
proof -
  have "poll opLocation key provider tr0
          = (Returned, tr0 @ rounds opLocation key (Suc k) @ [resp_text (extract_text (Some d))])"
    using assms(2-5) by (rule poll_succeeded)
  then have run: "ocr_handler cfg req submitted provider
      = tr0 @ rounds opLocation key (Suc k) @ [resp_text (or_else (content_of d) (JStr []))]"
    using handler_after_submit [OF assms(1), of provider] by (simp add: extract_text_content)
  have "queries ((tr0 @ rounds opLocation key (Suc k)) @ [resp_text (or_else (content_of d) (JStr []))])
          = Suc k"
    unfolding resp_text_def queries_respond queries_rounds
    using submit_no_query [OF assms(1)] by simp
  with run show ?thesis by simp
qed

text \<open>The scenario of the specification: two running answers, then the result.\<close>

theorem scenario_page_one:
  "ocr_handler example_config example_request (accepted_with (Some ''op-123''))
       (answers_after 2 (PollData (succeeded_body (JStr ''Page 1: hello''))))
     = [Submit example_submission,
        Sleep 1500, Query ''op-123'' ''secret'',
        Sleep 1500, Query ''op-123'' ''secret'',
        Sleep 1500, Query ''op-123'' ''secret'',
        Respond 200 (JObj [(''text'', JStr ''Page 1: hello'')])]
   \<and> queries (ocr_handler example_config example_request (accepted_with (Some ''op-123''))
       (answers_after 2 (PollData (succeeded_body (JStr ''Page 1: hello''))))) = 3"
proof -
  let ?p = "answers_after 2 (PollData (succeeded_body (JStr ''Page 1: hello'')))"
  have before: "\<forall>j<2. running (?p j)"
    by (simp add: running_answers_after)
  have third: "?p 2 = PollData (succeeded_body (JStr ''Page 1: hello''))"
    by (simp add: answers_after_def)
  have "has_status ''succeeded'' (?p 2)"
    by (simp add: answers_after_def has_status_def succeeded_body_def)
  with first_succeeded_returns_text [OF submit_example _ before third]
  show ?thesis
    by (simp add: succeeded_body_def content_of_def rounds_def resp_text_def numeral_3_eq_3
        queries_def)
qed

text \<open>The first terminal answer is \<^verbatim>\<open>succeeded\<close>, after 120 running answers.\<close>

theorem late_success_times_out:
  "has_status ''succeeded'' (answers_after 120 (PollData (succeeded_body (JStr ''Page 1: hello''))) 120)
   \<and> filter terminal
        (map (answers_after 120 (PollData (succeeded_body (JStr ''Page 1: hello'')))) [0..<120]) = []
   \<and> ocr_handler example_config example_request (accepted_with (Some ''op-123''))
        (answers_after 120 (PollData (succeeded_body (JStr ''Page 1: hello''))))
       = [Submit example_submission] @ rounds ''op-123'' ''secret'' 120 @ [resp_timeout]
   \<and> queries (ocr_handler example_config example_request (accepted_with (Some ''op-123''))
        (answers_after 120 (PollData (succeeded_body (JStr ''Page 1: hello''))))) = 120"
proof -
  let ?p = "answers_after 120 (PollData (succeeded_body (JStr ''Page 1: hello'')))"
  have "\<forall>j<120. running (?p j)"
    by (simp add: running_answers_after)
  then have "poll ''op-123'' ''secret'' ?p [Submit example_submission]
      = (Returned, [Submit example_submission] @ rounds ''op-123'' ''secret'' 120 @ [resp_timeout])"
    by (rule poll_timeout)
  then have run: "ocr_handler example_config example_request (accepted_with (Some ''op-123'')) ?p
      = [Submit example_submission] @ rounds ''op-123'' ''secret'' 120 @ [resp_timeout]"
    using handler_after_submit [OF submit_example, of ?p] by simp
  have "queries (([Submit example_submission] @ rounds ''op-123'' ''secret'' 120) @ [resp_timeout]) = 120"
    unfolding resp_timeout_def queries_respond queries_rounds by (simp add: queries_def)
  with run have "queries (ocr_handler example_config example_request (accepted_with (Some ''op-123'')) ?p) = 120"
    by simp
  moreover have "has_status ''succeeded'' (?p 120)"
    by (simp add: answers_after_def has_status_def succeeded_body_def)
  ultimately show ?thesis using run not_terminal_before [of 120] by simp
qed

text \<open>
  C2, as amended. When each of the first 120 answers is a running answer (a JSON body
  other than \<^verbatim>\<open>null\<close> that carries neither \<^verbatim>\<open>succeeded\<close> nor \<^verbatim>\<open>failed\<close>), the
  handler makes exactly 120 status queries, no more, and then answers with the timeout
  response, 504. A body that is \<^verbatim>\<open>null\<close> carries no terminal status either, but reading
  its status throws: the run ends there in the 500 of the \<^verbatim>\<open>catch\<close>, as it does at
  an answer whose body is no JSON.
\<close>

theorem running_only_times_out:
  assumes "submit cfg req submitted = (Normal (opLocation, key), tr0)"
    and "\<forall>j<120. running (provider j)"
  shows "ocr_handler cfg req submitted provider = tr0 @ rounds opLocation key 120 @ [resp_timeout]
         \<and> queries (ocr_handler cfg req submitted provider) = 120"
proof -
  have "poll opLocation key provider tr0 = (Returned, tr0 @ rounds opLocation key 120 @ [resp_timeout])"
    using assms(2) by (rule poll_timeout)
  then have run: "ocr_handler cfg req submitted provider
      = tr0 @ rounds opLocation key 120 @ [resp_timeout]"
    using handler_after_submit [OF assms(1), of provider] by simp
  have "queries (tr0 @ rounds opLocation key 120 @ [resp_timeout]) = 120"
    using assms(1) by (rule queries_polled) (simp add: resp_timeout_def)
  with run show ?thesis by simp
qed

text \<open>A provider whose every answer is the empty object, which has no status field.\<close>

theorem no_status_field_times_out:
  "running (PollData (JObj []))
   \<and> ocr_handler example_config example_request (accepted_with (Some ''op-123''))
        (answers_after 0 (PollData (JObj [])))
       = [Submit example_submission] @ rounds ''op-123'' ''secret'' 120 @ [resp_timeout]
   \<and> queries (ocr_handler example_config example_request (accepted_with (Some ''op-123''))
        (answers_after 0 (PollData (JObj [])))) = 120"
proof -
  have empty: "running (PollData (JObj []))"
    by (simp add: running_def terminal_def has_status_def)
  then have "\<forall>j<120. running (answers_after 0 (PollData (JObj [])) j)"
    by (simp add: answers_after_def)
  from running_only_times_out [OF submit_example this] empty show ?thesis
    by blast
qed

text \<open>A provider whose every answer is \<^verbatim>\<open>null\<close>: one query, then the 500 of the \<^verbatim>\<open>catch\<close>.\<close>

theorem null_body_aborts:
  "filter terminal (map (answers_after 0 (PollData JNull)) [0..<120]) = []
   \<and> ocr_handler example_config example_request (accepted_with (Some ''op-123''))
        (answers_after 0 (PollData JNull))
       = [Submit example_submission, Sleep 1500, Query ''op-123'' ''secret'',
          resp_exception null_status_error]
   \<and> queries (ocr_handler example_config example_request (accepted_with (Some ''op-123''))
        (answers_after 0 (PollData JNull))) = 1"
proof -
  let ?p = "answers_after 0 (PollData JNull)"
  have "poll ''op-123'' ''secret'' ?p [Submit example_submission]
      = (Threw null_status_error, [Submit example_submission] @ rounds ''op-123'' ''secret'' (Suc 0))"
    by (rule poll_null) (simp_all add: answers_after_def)
  then have run: "ocr_handler example_config example_request (accepted_with (Some ''op-123'')) ?p
      = [Submit example_submission, Sleep 1500, Query ''op-123'' ''secret'',
         resp_exception null_status_error]"
    using handler_after_submit [OF submit_example, of ?p] by (simp add: rounds_def)
  have "filter terminal (map ?p [0..<120]) = []"
    by (simp add: filter_empty_conv answers_after_def terminal_def has_status_def)
  with run show ?thesis by (simp add: queries_def resp_exception_def)
qed

text \<open>
  C3, as amended. Endpoint and key are set and a file with a buffer was uploaded, so that
  the submission is made. For every response of the provider, step 1 ends in exactly one
  of three ways: it yields the operation reference \<open>loc\<close> if and only if the status is 202
  and the \<^verbatim>\<open>operation-location\<close> header is \<open>loc\<close>, a string that is not empty; it
  answers 500 with the provider's status and body if and only if the status is not 202; it
  answers 500 \<^verbatim>\<open>Missing Operation-Location\<close> if and only if the status is 202 and the
  header is missing or empty. The three conditions exclude each other and cover every
  response. A header that is present with an empty value counts as missing.
\<close>

theorem submit_three_outcomes:
  assumes "AZURE_DI_ENDPOINT cfg = Some endpoint" and "endpoint \<noteq> []"
    and "AZURE_DI_KEY cfg = Some key" and "key \<noteq> []"
    and "req_file req = Some f" and "buffer f = Some buf"
  shows "(submit cfg req (SubmitResponse r)
            = (Normal (loc, key), [Submit (submission endpoint key f buf)])
          \<longleftrightarrow> status r = 202 \<and> headers_get r ''operation-location'' = Some loc \<and> loc \<noteq> [])
       \<and> (submit cfg req (SubmitResponse r)
            = (Returned, [Submit (submission endpoint key f buf),
                 Respond 500 (JObj [(''error'', JStr ''Azure DI submit failed''),
                                    (''status'', JNum (Finite (of_nat (status r)))),
                                    (''details'', JStr (body_text r))])])
          \<longleftrightarrow> status r \<noteq> 202)
       \<and> (submit cfg req (SubmitResponse r)
            = (Returned, [Submit (submission endpoint key f buf),
                 Respond 500 (JObj [(''error'', JStr ''Missing Operation-Location'')])])
          \<longleftrightarrow> status r = 202 \<and> \<not> truthy_str (headers_get r ''operation-location''))"
proof (cases "status r = 202")
  case False
  then show ?thesis
    by (simp add: submit_accepted [OF assms] resp_defs)
next
  case True
  show ?thesis
  proof (cases "headers_get r ''operation-location''")
    case None
    with True show ?thesis
      by (simp add: submit_accepted [OF assms] resp_defs)
  next
    case (Some h)
    with True show ?thesis
      by (cases "h = []") (auto simp add: submit_accepted [OF assms] resp_defs)
  qed
qed

text \<open>The provider accepts with the reference \<^verbatim>\<open>op-123\<close>.\<close>

theorem scenario_accepted:
  "submit example_config example_request (accepted_with (Some ''op-123''))
     = (Normal (''op-123'', ''secret''), [Submit example_submission])"
proof -
  have sub: "submission ''https://di.example.com/'' ''secret'' example_upload [0x89, 0x50, 0x4E, 0x47]
      = example_submission"
    by (simp add: submission_def example_upload_def submitUrl_def strip_trailing_slash_def
        AZURE_API_VERSION_def example_submission_def)
  have cfg: "AZURE_DI_ENDPOINT example_config = Some ''https://di.example.com/''"
    "AZURE_DI_KEY example_config = Some ''secret''"
    by (simp_all add: example_config_def)
  have req: "req_file example_request = Some example_upload"
    "buffer example_upload = Some [0x89, 0x50, 0x4E, 0x47]"
    by (simp_all add: example_request_def example_upload_def)
  from submit_three_outcomes [OF cfg(1) _ cfg(2) _ req, unfolded sub, of
      "\<lparr> status = 202, body_text = [],
         headers_get = (\<lambda>h. if h = ''operation-location'' then Some ''op-123'' else None) \<rparr>"
      "''op-123''"]
  show ?thesis
    by (simp add: accepted_with_def)
qed

text \<open>Status 202 and an \<^verbatim>\<open>operation-location\<close> header that is present and empty.\<close>

theorem empty_location_header:
  "(case accepted_with (Some []) of
      SubmitThrows e \<Rightarrow> False
    | SubmitResponse r \<Rightarrow> status r = 202 \<and> headers_get r ''operation-location'' \<noteq> None)
   \<and> submit example_config example_request (accepted_with (Some []))
       = (Returned, [Submit example_submission,
            Respond 500 (JObj [(''error'', JStr ''Missing Operation-Location'')])])"
  by (simp add: submit_def example_config_def example_request_def example_upload_def
      accepted_with_def submission_def submitUrl_def strip_trailing_slash_def
      AZURE_API_VERSION_def example_submission_def resp_missing_location_def)

text \<open>
  C4, as amended. When the first terminal answer is \<^verbatim>\<open>failed\<close>, it is one of the first
  120 answers (number \<open>k\<close>, counted from 0) and only running answers came before it, the
  handler stops at that answer: it has made exactly \<open>k + 1\<close> queries, at most 120, and
  answers 500 with the provider's answer, unchanged, as the details. The timeout response
  has the code 504, so the caller can tell the two apart. A \<^verbatim>\<open>failed\<close> answer after 120
  running ones is never asked for, and as the answer number 119 it leaves no attempt.
\<close>

theorem first_failed_returns_detail:
  assumes "submit cfg req submitted = (Normal (opLocation, key), tr0)"
    and "k < 120"
    and "\<forall>j<k. running (provider j)"
    and "provider k = PollData d"
    and "has_status ''failed'' (provider k)"
  shows "ocr_handler cfg req submitted provider
           = tr0 @ rounds opLocation key (Suc k)
               @ [Respond 500 (JObj [(''error'', JStr ''Azure DI failed''), (''details'', d)])]
         \<and> queries (ocr_handler cfg req submitted provider) = Suc k
         \<and> code_of (last (ocr_handler cfg req submitted provider)) = Some 500
         \<and> code_of resp_timeout = Some 504"
proof -
  have "poll opLocation key provider tr0
          = (Returned, tr0 @ rounds opLocation key (Suc k) @ [resp_failed d])"
    using assms(2-5) by (rule poll_failed)
  then have run: "ocr_handler cfg req submitted provider
      = tr0 @ rounds opLocation key (Suc k) @ [resp_failed d]"
    using handler_after_submit [OF assms(1), of provider] by simp
  have "queries (tr0 @ rounds opLocation key (Suc k) @ [resp_failed d]) = Suc k"
    using assms(1) by (rule queries_polled) (simp add: resp_failed_def)
  with run show ?thesis by (simp add: resp_failed_def resp_timeout_def)
qed

text \<open>One running answer, then \<^verbatim>\<open>failed\<close>.\<close>

theorem scenario_failed:
  "ocr_handler example_config example_request (accepted_with (Some ''op-123''))
       (answers_after 1 (PollData failed_body))
     = [Submit example_submission,
        Sleep 1500, Query ''op-123'' ''secret'',
        Sleep 1500, Query ''op-123'' ''secret'',
        Respond 500 (JObj [(''error'', JStr ''Azure DI failed''), (''details'', failed_body)])]
   \<and> queries (ocr_handler example_config example_request (accepted_with (Some ''op-123''))
       (answers_after 1 (PollData failed_body))) = 2"
proof -
  let ?p = "answers_after 1 (PollData failed_body)"
  have before: "\<forall>j<1. running (?p j)"
    by (simp add: running_answers_after)
  have second: "?p 1 = PollData failed_body"
    by (simp add: answers_after_def)
  have "has_status ''failed'' (?p 1)"
    by (simp add: answers_after_def has_status_def failed_body_def)
  with first_failed_returns_detail [OF submit_example _ before second]
  show ?thesis
    by (simp add: rounds_def queries_def)
qed

text \<open>The first terminal answer is \<^verbatim>\<open>failed\<close>, after 120 running answers: the caller gets 504.\<close>

theorem late_failure_times_out:
  "has_status ''failed'' (answers_after 120 (PollData failed_body) 120)
   \<and> filter terminal (map (answers_after 120 (PollData failed_body)) [0..<120]) = []
   \<and> ocr_handler example_config example_request (accepted_with (Some ''op-123''))
        (answers_after 120 (PollData failed_body))
       = [Submit example_submission] @ rounds ''op-123'' ''secret'' 120 @ [resp_timeout]
   \<and> code_of (last (ocr_handler example_config example_request (accepted_with (Some ''op-123''))
        (answers_after 120 (PollData failed_body)))) = Some 504"
proof -
  let ?p = "answers_after 120 (PollData failed_body)"
  have "\<forall>j<120. running (?p j)"
    by (simp add: running_answers_after)
  then have "poll ''op-123'' ''secret'' ?p [Submit example_submission]
      = (Returned, [Submit example_submission] @ rounds ''op-123'' ''secret'' 120 @ [resp_timeout])"
    by (rule poll_timeout)
  then have run: "ocr_handler example_config example_request (accepted_with (Some ''op-123'')) ?p
      = [Submit example_submission] @ rounds ''op-123'' ''secret'' 120 @ [resp_timeout]"
    using handler_after_submit [OF submit_example, of ?p] by simp
  moreover have "has_status ''failed'' (?p 120)"
    by (simp add: answers_after_def has_status_def failed_body_def)
  ultimately show ?thesis using not_terminal_before [of 120]
    by (simp add: resp_timeout_def)
qed

text \<open>
  C5, as amended. When a status query throws (the query number \<open>k\<close>, made because
  \<open>k < 120\<close> and every earlier answer was a running one), the whole run ends at that
  query: \<open>k + 1\<close> queries have been made, none follows, and the caller gets the 500 of
  the \<^verbatim>\<open>catch\<close>, with the error label \<^verbatim>\<open>Azure DI exception\<close> and the rendering of
  what was thrown. It has the status code of a failure the provider reported, 500, and
  nothing else in common with it: that one is labelled \<^verbatim>\<open>Azure DI failed\<close>, so the
  caller can tell the two apart, whatever the provider's failure says.
\<close>

theorem poll_exception_aborts:
  assumes "submit cfg req submitted = (Normal (opLocation, key), tr0)"
    and "k < 120"
    and "\<forall>j<k. running (provider j)"
    and "provider k = PollThrows e"
  shows "ocr_handler cfg req submitted provider
           = tr0 @ rounds opLocation key (Suc k)
               @ [Respond 500 (JObj [(''error'', JStr ''Azure DI exception''),
                                     (''details'', JStr (String_exn e))])]
         \<and> queries (ocr_handler cfg req submitted provider) = Suc k
         \<and> code_of (last (ocr_handler cfg req submitted provider)) = code_of (resp_failed d)
         \<and> error_label (last (ocr_handler cfg req submitted provider))
             = Some (JStr ''Azure DI exception'')
         \<and> error_label (resp_failed d) = Some (JStr ''Azure DI failed'')
         \<and> last (ocr_handler cfg req submitted provider) \<noteq> resp_failed d"
proof -
  have "poll opLocation key provider tr0 = (Threw e, tr0 @ rounds opLocation key (Suc k))"
    using assms(2-4) by (rule poll_throws)
  then have run: "ocr_handler cfg req submitted provider
      = tr0 @ rounds opLocation key (Suc k) @ [resp_exception e]"
    using handler_after_submit [OF assms(1), of provider] by simp
  have "queries (tr0 @ rounds opLocation key (Suc k) @ [resp_exception e]) = Suc k"
    using assms(1) by (rule queries_polled) (simp add: resp_exception_def)
  with run show ?thesis by (simp add: resp_exception_def resp_failed_def)
qed

text \<open>One running answer, then a query that throws.\<close>

theorem scenario_socket_hang_up:
  "ocr_handler example_config example_request (accepted_with (Some ''op-123''))
       (answers_after 1 (PollThrows (Thrown ''FetchError: socket hang up'')))
     = [Submit example_submission,
        Sleep 1500, Query ''op-123'' ''secret'',
        Sleep 1500, Query ''op-123'' ''secret'',
        Respond 500 (JObj [(''error'', JStr ''Azure DI exception''),
                           (''details'', JStr ''FetchError: socket hang up'')])]
   \<and> queries (ocr_handler example_config example_request (accepted_with (Some ''op-123''))
       (answers_after 1 (PollThrows (Thrown ''FetchError: socket hang up'')))) = 2
   \<and> code_of (last (ocr_handler example_config example_request (accepted_with (Some ''op-123''))
       (answers_after 1 (PollThrows (Thrown ''FetchError: socket hang up'')))))
       = code_of (resp_failed failed_body)
   \<and> last (ocr_handler example_config example_request (accepted_with (Some ''op-123''))
       (answers_after 1 (PollThrows (Thrown ''FetchError: socket hang up''))))
       \<noteq> resp_failed failed_body"
proof -
  let ?p = "answers_after 1 (PollThrows (Thrown ''FetchError: socket hang up''))"
  have before: "\<forall>j<1. running (?p j)"
    by (simp add: running_answers_after)
  have second: "?p 1 = PollThrows (Thrown ''FetchError: socket hang up'')"
    by (simp add: answers_after_def)
  from poll_exception_aborts [OF submit_example _ before second, of failed_body]
  show ?thesis
    by (simp add: rounds_def queries_def resp_failed_def)
qed

text \<open>
  The same provider twice, once with a second query that throws and once with a second
  answer that is \<^verbatim>\<open>failed\<close>: the two responses share the code 500 and differ in the
  error label, so the caller does distinguish them.
\<close>

theorem exception_differs_from_failure:
  "last (ocr_handler example_config example_request (accepted_with (Some ''op-123''))
       (answers_after 1 (PollThrows (Thrown ''FetchError: socket hang up''))))
     = Respond 500 (JObj [(''error'', JStr ''Azure DI exception''),
                          (''details'', JStr ''FetchError: socket hang up'')])
   \<and> last (ocr_handler example_config example_request (accepted_with (Some ''op-123''))
       (answers_after 1 (PollData failed_body)))
     = Respond 500 (JObj [(''error'', JStr ''Azure DI failed''), (''details'', failed_body)])
   \<and> error_label (last (ocr_handler example_config example_request (accepted_with (Some ''op-123''))
       (answers_after 1 (PollThrows (Thrown ''FetchError: socket hang up'')))))
     = Some (JStr ''Azure DI exception'')
   \<and> error_label (last (ocr_handler example_config example_request (accepted_with (Some ''op-123''))
       (answers_after 1 (PollData failed_body))))
     = Some (JStr ''Azure DI failed'')
   \<and> last (ocr_handler example_config example_request (accepted_with (Some ''op-123''))
       (answers_after 1 (PollThrows (Thrown ''FetchError: socket hang up''))))
     \<noteq> last (ocr_handler example_config example_request (accepted_with (Some ''op-123''))
       (answers_after 1 (PollData failed_body)))"
proof -
  let ?t = "answers_after 1 (PollThrows (Thrown ''FetchError: socket hang up''))"
  let ?f = "answers_after 1 (PollData failed_body)"
  have "poll ''op-123'' ''secret'' ?t [Submit example_submission]
      = (Threw (Thrown ''FetchError: socket hang up''),
         [Submit example_submission] @ rounds ''op-123'' ''secret'' (Suc 1))"
    by (rule poll_throws) (simp_all add: running_answers_after, simp add: answers_after_def)
  then have t: "last (ocr_handler example_config example_request (accepted_with (Some ''op-123'')) ?t)
      = Respond 500 (JObj [(''error'', JStr ''Azure DI exception''),
                           (''details'', JStr ''FetchError: socket hang up'')])"
    using handler_after_submit [OF submit_example, of ?t] by (simp add: resp_exception_def)
  have "poll ''op-123'' ''secret'' ?f [Submit example_submission]
      = (Returned, [Submit example_submission] @ rounds ''op-123'' ''secret'' (Suc 1)
           @ [resp_failed failed_body])"
    by (rule poll_failed)
      (simp_all add: running_answers_after, simp_all add: answers_after_def has_status_def failed_body_def)
  then have f: "last (ocr_handler example_config example_request (accepted_with (Some ''op-123'')) ?f)
      = Respond 500 (JObj [(''error'', JStr ''Azure DI failed''), (''details'', failed_body)])"
    using handler_after_submit [OF submit_example, of ?f] by (simp add: resp_failed_def)
  show ?thesis unfolding t f by simp
qed

text \<open>
  C6, as amended. An answer that is a JSON body other than \<^verbatim>\<open>null\<close> and whose status
  is neither \<^verbatim>\<open>succeeded\<close> nor \<^verbatim>\<open>failed\<close> (an unknown string, no string, no status
  field) does not end the run: when the answers up to number \<open>i\<close> are of this kind, the
  handler goes on from answer \<open>i\<close> to a pause and the next query, so that at least
  \<open>i + 2\<close> queries are made, or, when answer \<open>i\<close> was the 120th, to the timeout
  response. A body that is \<^verbatim>\<open>null\<close> has no status field either, but the run ends at
  it, as it does at an answer whose body is no JSON.
\<close>

theorem running_answer_goes_on:
  assumes "submit cfg req submitted = (Normal (opLocation, key), tr0)"
    and "i < 120"
    and "\<forall>j\<le>i. running (provider j)"
  shows "(Suc i < 120 \<longrightarrow>
            (\<exists>rest. ocr_handler cfg req submitted provider
                       = tr0 @ rounds opLocation key (Suc (Suc i)) @ rest)
            \<and> Suc (Suc i) \<le> queries (ocr_handler cfg req submitted provider))
       \<and> (Suc i = 120 \<longrightarrow>
            ocr_handler cfg req submitted provider = tr0 @ rounds opLocation key 120 @ [resp_timeout])"
proof -
  let ?h = "ocr_handler cfg req submitted provider"
  from handler_polled [OF assms(1), of provider]
  consider (all) "?h = tr0 @ rounds opLocation key 120 @ [resp_timeout]"
    | (stop) k r where "k < 120" "\<not> running (provider k)"
        "?h = tr0 @ rounds opLocation key (Suc k) @ [r]" "is_respond r"
    by (auto simp add: resp_defs)
  then show ?thesis
  proof cases
    case all
    have q: "queries ?h = 120"
      unfolding all using assms(1) by (rule queries_polled) (simp add: resp_timeout_def)
    have "\<exists>rest. ?h = tr0 @ rounds opLocation key (Suc (Suc i)) @ rest" if "Suc i < 120"
    proof -
      from that have "120 = Suc (Suc i) + (118 - i)" by simp
      then have "rounds opLocation key 120
          = rounds opLocation key (Suc (Suc i)) @ rounds opLocation key (118 - i)"
        by (metis rounds_add)
      with all show ?thesis by simp
    qed
    with all q show ?thesis by simp
  next
    case stop
    from stop(2) assms(3) have "i < k"
      by (meson not_le_imp_less)
    have q: "queries ?h = Suc k"
      unfolding stop(3) using assms(1) stop(4) by (rule queries_polled)
    from \<open>i < k\<close> have "Suc k = Suc (Suc i) + (k - Suc i)" by simp
    then have "rounds opLocation key (Suc k)
        = rounds opLocation key (Suc (Suc i)) @ rounds opLocation key (k - Suc i)"
      by (metis rounds_add)
    with stop(3) have "\<exists>rest. ?h = tr0 @ rounds opLocation key (Suc (Suc i)) @ rest"
      by simp
    with q \<open>i < k\<close> stop(1) show ?thesis by simp
  qed
qed

text \<open>After a first running answer a second query is made.\<close>

theorem scenario_second_query:
  "running (answers_after 1 (PollThrows (Thrown ''FetchError: socket hang up'')) 0)
   \<and> 2 \<le> queries (ocr_handler example_config example_request (accepted_with (Some ''op-123''))
            (answers_after 1 (PollThrows (Thrown ''FetchError: socket hang up''))))"
proof -
  let ?p = "answers_after 1 (PollThrows (Thrown ''FetchError: socket hang up''))"
  have first: "\<forall>j\<le>0. running (?p j)"
    by (simp add: running_answers_after)
  from running_answer_goes_on [OF submit_example _ first] first
  show ?thesis by simp
qed

text \<open>A running answer, then \<^verbatim>\<open>null\<close>: no third query, the 500 of the \<^verbatim>\<open>catch\<close>.\<close>

theorem null_answer_aborts:
  "\<not> terminal (answers_after 1 (PollData JNull) 1)
   \<and> ocr_handler example_config example_request (accepted_with (Some ''op-123''))
        (answers_after 1 (PollData JNull))
       = [Submit example_submission,
          Sleep 1500, Query ''op-123'' ''secret'',
          Sleep 1500, Query ''op-123'' ''secret'',
          resp_exception null_status_error]"
proof -
  let ?p = "answers_after 1 (PollData JNull)"
  have "poll ''op-123'' ''secret'' ?p [Submit example_submission]
      = (Threw null_status_error, [Submit example_submission] @ rounds ''op-123'' ''secret'' (Suc 1))"
    by (rule poll_null) (simp_all add: running_answers_after, simp add: answers_after_def)
  then have "ocr_handler example_config example_request (accepted_with (Some ''op-123'')) ?p
      = [Submit example_submission, Sleep 1500, Query ''op-123'' ''secret'',
         Sleep 1500, Query ''op-123'' ''secret'', resp_exception null_status_error]"
    using handler_after_submit [OF submit_example, of ?p] by (simp add: rounds_def)
  then show ?thesis
    by (simp add: answers_after_def terminal_def has_status_def)
qed

text \<open>
  C7, as amended. When the request has no file, or a file without a buffer, the handler
  sends nothing to the provider, neither a submission nor a status query, and answers once:
  400 \<^verbatim>\<open>No file uploaded\<close> when endpoint and key are set, and 500
  \<^verbatim>\<open>Missing Azure DI env vars\<close> otherwise, since the variables are checked first. A
  buffer of length zero is a buffer: the handler does not test the length.
\<close>

theorem no_file_no_submission:
  assumes "req_file req = None \<or> (\<exists>f. req_file req = Some f \<and> buffer f = None)"
  shows "ocr_handler cfg req submitted provider
           = [if truthy_str (AZURE_DI_ENDPOINT cfg) \<and> truthy_str (AZURE_DI_KEY cfg)
              then Respond 400 (JObj [(''error'', JStr ''No file uploaded'')])
              else Respond 500 (JObj [(''error'', JStr ''Missing Azure DI env vars'')])]
         \<and> submissions (ocr_handler cfg req submitted provider) = []
         \<and> queries (ocr_handler cfg req submitted provider) = 0"
proof -
  have "submit cfg req submitted
      = (Returned, [if truthy_str (AZURE_DI_ENDPOINT cfg) \<and> truthy_str (AZURE_DI_KEY cfg)
                    then resp_no_file else resp_missing_env])"
    using assms by (auto simp add: submit_def split: option.splits)
  then have "ocr_handler cfg req submitted provider
      = [if truthy_str (AZURE_DI_ENDPOINT cfg) \<and> truthy_str (AZURE_DI_KEY cfg)
         then resp_no_file else resp_missing_env]"
    by (simp add: ocr_handler_def try_block_def)
  then show ?thesis
    by (simp add: resp_no_file_def resp_missing_env_def submissions_def queries_def)
qed

text \<open>A request without a file, with endpoint and key set.\<close>

theorem scenario_no_file:
  "ocr_handler example_config \<lparr> req_file = None \<rparr> (accepted_with (Some ''op-123''))
       (answers_after 0 (PollData (succeeded_body (JStr ''Page 1: hello''))))
     = [Respond 400 (JObj [(''error'', JStr ''No file uploaded'')])]"
  using no_file_no_submission [of "\<lparr> req_file = None \<rparr>" example_config
      "accepted_with (Some ''op-123'')"
      "answers_after 0 (PollData (succeeded_body (JStr ''Page 1: hello'')))"]
  by (simp add: example_config_def)

text \<open>An upload of zero bytes is submitted and polled; without the variables the answer is 500, not 400.\<close>

theorem empty_buffer_is_submitted:
  "ocr_handler example_config
       \<lparr> req_file = Some \<lparr> buffer = Some [], mimetype = Some ''application/pdf'' \<rparr> \<rparr>
       (accepted_with (Some ''op-123''))
       (answers_after 0 (PollData (succeeded_body (JStr []))))
     = [Submit (example_submission \<lparr> content_type := ''application/pdf'', body := [] \<rparr>),
        Sleep 1500, Query ''op-123'' ''secret'',
        Respond 200 (JObj [(''text'', JStr [])])]
   \<and> ocr_handler \<lparr> AZURE_DI_ENDPOINT = None, AZURE_DI_KEY = None \<rparr> \<lparr> req_file = None \<rparr>
       (accepted_with (Some ''op-123''))
       (answers_after 0 (PollData (succeeded_body (JStr []))))
     = [Respond 500 (JObj [(''error'', JStr ''Missing Azure DI env vars'')])]"
proof -
  let ?p = "answers_after 0 (PollData (succeeded_body (JStr [])))"
  let ?req = "\<lparr> req_file = Some \<lparr> buffer = Some [], mimetype = Some ''application/pdf'' \<rparr> \<rparr>"
  let ?sub = "example_submission \<lparr> content_type := ''application/pdf'', body := [] \<rparr>"
  have s: "submit example_config ?req (accepted_with (Some ''op-123''))
      = (Normal (''op-123'', ''secret''), [Submit ?sub])"
    by (simp add: submit_def example_config_def accepted_with_def submission_def submitUrl_def
        strip_trailing_slash_def AZURE_API_VERSION_def example_submission_def)
  have "poll ''op-123'' ''secret'' ?p [Submit ?sub]
      = (Returned, [Submit ?sub] @ rounds ''op-123'' ''secret'' (Suc 0)
           @ [resp_text (extract_text (Some (succeeded_body (JStr []))))])"
    by (rule poll_succeeded) (simp_all add: answers_after_def has_status_def succeeded_body_def)
  then have "ocr_handler example_config ?req (accepted_with (Some ''op-123'')) ?p
      = [Submit ?sub, Sleep 1500, Query ''op-123'' ''secret'', Respond 200 (JObj [(''text'', JStr [])])]"
    using handler_after_submit [OF s, of ?p]
    by (simp add: rounds_def extract_text_def succeeded_body_def resp_text_def)
  moreover have "ocr_handler \<lparr> AZURE_DI_ENDPOINT = None, AZURE_DI_KEY = None \<rparr> \<lparr> req_file = None \<rparr>
       (accepted_with (Some ''op-123'')) ?p
     = [Respond 500 (JObj [(''error'', JStr ''Missing Azure DI env vars'')])]"
    by (simp add: ocr_handler_def try_block_def submit_def resp_missing_env_def)
  ultimately show ?thesis by simp
qed

text \<open>
  C8. The upload middleware hands the handler a \<^verbatim>\<open>mimetype\<close> that is a string and not
  empty: the label the caller gave to the file part. For every such request that passes the
  checks, exactly one submission is sent, whatever the provider does afterwards; its body is
  the uploaded buffer and its content type is that label, unchanged. The handler looks at
  neither the bytes nor the value of the label. The alternative \<^verbatim>\<open>application/pdf\<close> of
  line 62 stands for a \<^verbatim>\<open>mimetype\<close> that is missing or empty, which the middleware never
  hands over.
\<close>

theorem content_type_sent:
  assumes "AZURE_DI_ENDPOINT cfg = Some endpoint" and "endpoint \<noteq> []"
    and "AZURE_DI_KEY cfg = Some key" and "key \<noteq> []"
    and "req_file req = Some f" and "buffer f = Some buf"
    and "mimetype f = Some m" and "m \<noteq> []"
  shows "\<exists>s. submissions (ocr_handler cfg req submitted provider) = [s]
           \<and> body s = buf
           \<and> content_type s = m"
proof -
  note ready = assms(1-6)
  have "submissions (snd (submit cfg req submitted)) = [submission endpoint key f buf]"
  proof (cases submitted)
    case (SubmitThrows e)
    then show ?thesis
      by (simp add: submit_thrown [OF ready] submissions_def)
  next
    case (SubmitResponse r)
    then show ?thesis
      by (simp add: submit_accepted [OF ready] submissions_def resp_defs split: option.split)
  qed
  then have "submissions (ocr_handler cfg req submitted provider) = [submission endpoint key f buf]"
    by (simp add: submissions_handler)
  moreover have "content_type (submission endpoint key f buf) = m"
    using assms(7,8) by (simp add: submission_def)
  moreover have "body (submission endpoint key f buf) = buf"
    by (simp add: submission_def)
  ultimately show ?thesis by blast
qed

text \<open>The caller's \<^verbatim>\<open>image/png\<close> is what the provider is sent.\<close>

theorem scenario_png:
  "mimetype example_upload = Some ''image/png''
   \<and> map content_type
     (submissions (ocr_handler example_config example_request (accepted_with (Some ''op-123''))
        (answers_after 2 (PollData (succeeded_body (JStr ''Page 1: hello''))))))
     = [''image/png'']"
proof -
  have cfg: "AZURE_DI_ENDPOINT example_config = Some ''https://di.example.com/''"
    "AZURE_DI_KEY example_config = Some ''secret''"
    by (simp_all add: example_config_def)
  have req: "req_file example_request = Some example_upload"
    "buffer example_upload = Some [0x89, 0x50, 0x4E, 0x47]"
    "mimetype example_upload = Some ''image/png''"
    by (simp_all add: example_request_def example_upload_def)
  from content_type_sent [OF cfg(1) _ cfg(2) _ req, of "accepted_with (Some ''op-123'')"
      "answers_after 2 (PollData (succeeded_body (JStr ''Page 1: hello'')))"]
  show ?thesis
    by (auto simp add: example_upload_def)
qed

text \<open>
  C9, as amended. Every run of the handler, whatever the configuration and the request are
  and whatever the provider answers, as long as each of its answers arrives, sends exactly
  one response to the caller, as its last event. The response is one of eight, which differ
  in their error label (the text has none): the text (succeeded), the provider's failure, the timeout, the
  provider's rejection of the submission, the missing operation location, the 500 of the
  \<^verbatim>\<open>catch\<close> (for a submission that throws and, the same response, for a status query
  that throws or reads \<^verbatim>\<open>null\<close>), and the two rejections before anything is sent,
  400 for a missing file and 500 for missing variables. At most one submission and at most
  120 status queries are made, and every answer but the one to the last query was a running
  one: no query follows an answer that is terminal or that throws. The four outcomes
  succeeded, failed, timed out and submission error do not cover the runs: see below.
\<close>

theorem one_outcome_one_response:
  "\<exists>r. responses (ocr_handler cfg req submitted provider) = [r]
       \<and> last (ocr_handler cfg req submitted provider) = r
       \<and> ((\<exists>t. r = resp_text t)
            \<or> (\<exists>d. r = resp_failed d)
            \<or> r = resp_timeout
            \<or> (\<exists>st txt. r = resp_submit_failed st txt)
            \<or> r = resp_missing_location
            \<or> (\<exists>e. r = resp_exception e)
            \<or> r = resp_no_file
            \<or> r = resp_missing_env)
       \<and> length (submissions (ocr_handler cfg req submitted provider)) \<le> 1
       \<and> queries (ocr_handler cfg req submitted provider) \<le> 120
       \<and> (\<forall>j. Suc j < queries (ocr_handler cfg req submitted provider) \<longrightarrow> running (provider j))
       \<and> error_label (resp_text t) = None
       \<and> error_label (resp_failed d) = Some (JStr ''Azure DI failed'')
       \<and> error_label resp_timeout = Some (JStr ''Azure DI timeout'')
       \<and> error_label (resp_submit_failed st txt) = Some (JStr ''Azure DI submit failed'')
       \<and> error_label resp_missing_location = Some (JStr ''Missing Operation-Location'')
       \<and> error_label (resp_exception e) = Some (JStr ''Azure DI exception'')
       \<and> error_label resp_no_file = Some (JStr ''No file uploaded'')
       \<and> error_label resp_missing_env = Some (JStr ''Missing Azure DI env vars'')"
proof -
  let ?h = "ocr_handler cfg req submitted provider"
  have labels: "error_label (resp_text t) = None"
    "error_label (resp_failed d) = Some (JStr ''Azure DI failed'')"
    "error_label resp_timeout = Some (JStr ''Azure DI timeout'')"
    "error_label (resp_submit_failed st txt) = Some (JStr ''Azure DI submit failed'')"
    "error_label resp_missing_location = Some (JStr ''Missing Operation-Location'')"
    "error_label (resp_exception e) = Some (JStr ''Azure DI exception'')"
    "error_label resp_no_file = Some (JStr ''No file uploaded'')"
    "error_label resp_missing_env = Some (JStr ''Missing Azure DI env vars'')"
    by (simp_all add: resp_defs)
  from handler_shape [of cfg req submitted provider]
  obtain tr0 n r where r: "is_respond r"
    and h: "?h = tr0 \<and> tr0 \<noteq> [] \<and> last tr0 = r \<and> responses tr0 = [r]
            \<or> (\<exists>u key. responses tr0 = [] \<and> ?h = tr0 @ rounds u key n @ [r])"
    and shape: "r = resp_missing_env \<or> r = resp_no_file \<or> (\<exists>st txt. r = resp_submit_failed st txt)
           \<or> r = resp_missing_location \<or> (\<exists>e. r = resp_exception e)
           \<or> (\<exists>d. r = resp_failed d) \<or> r = resp_timeout \<or> (\<exists>t. r = resp_text t)"
    by blast
  from h r have one: "responses ?h = [r] \<and> last ?h = r"
    by (auto simp add: responses_polled)
  have subs: "length (submissions ?h) \<le> 1"
    unfolding submissions_handler by (rule submissions_submit)
  from queries_handler [of cfg req submitted provider]
  have "queries ?h \<le> 120 \<and> (\<forall>j. Suc j < queries ?h \<longrightarrow> running (provider j))"
    by blast
  with one shape subs have "\<exists>r. responses ?h = [r] \<and> last ?h = r
       \<and> ((\<exists>t. r = resp_text t) \<or> (\<exists>d. r = resp_failed d) \<or> r = resp_timeout
            \<or> (\<exists>st txt. r = resp_submit_failed st txt) \<or> r = resp_missing_location
            \<or> (\<exists>e. r = resp_exception e) \<or> r = resp_no_file \<or> r = resp_missing_env)
       \<and> length (submissions ?h) \<le> 1
       \<and> queries ?h \<le> 120
       \<and> (\<forall>j. Suc j < queries ?h \<longrightarrow> running (provider j))"
    by blast
  with labels show ?thesis by simp
qed

text \<open>The scenario of the specification: one response, three queries, two running answers first.\<close>

theorem scenario_one_response:
  "responses (ocr_handler example_config example_request (accepted_with (Some ''op-123''))
       (answers_after 2 (PollData (succeeded_body (JStr ''Page 1: hello'')))))
     = [Respond 200 (JObj [(''text'', JStr ''Page 1: hello'')])]
   \<and> queries (ocr_handler example_config example_request (accepted_with (Some ''op-123''))
       (answers_after 2 (PollData (succeeded_body (JStr ''Page 1: hello''))))) = 3
   \<and> running (answers_after 2 (PollData (succeeded_body (JStr ''Page 1: hello''))) 0)
   \<and> running (answers_after 2 (PollData (succeeded_body (JStr ''Page 1: hello''))) 1)"
proof -
  let ?p = "answers_after 2 (PollData (succeeded_body (JStr ''Page 1: hello'')))"
  let ?h = "ocr_handler example_config example_request (accepted_with (Some ''op-123'')) ?p"
  have q: "queries ?h = 3"
    by (simp add: example_run queries_def)
  from one_outcome_one_response [of example_config example_request
      "accepted_with (Some ''op-123'')" ?p]
  obtain r where r: "responses ?h = [r]" "last ?h = r"
    and before: "\<forall>j. Suc j < queries ?h \<longrightarrow> running (?p j)"
    by blast
  from r(2) have "r = Respond 200 (JObj [(''text'', JStr ''Page 1: hello'')])"
    by (simp add: example_run)
  moreover from before q have "running (?p 0)" "running (?p 1)"
    by simp_all
  ultimately show ?thesis using r(1) q by simp
qed

text \<open>
  Two runs whose outcome is none of the four. The provider accepts the submission and the
  second status query throws: no submission error, and the response is the 500 of the
  \<^verbatim>\<open>catch\<close>, not the text, not the provider's failure, not the timeout. And a request
  without a file: nothing is submitted, and the response is the 400.
\<close>

theorem poll_exception_is_a_fifth_outcome:
  "submit example_config example_request (accepted_with (Some ''op-123''))
     = (Normal (''op-123'', ''secret''), [Submit example_submission])
   \<and> ocr_handler example_config example_request (accepted_with (Some ''op-123''))
       (answers_after 1 (PollThrows (Thrown ''FetchError: socket hang up'')))
     = [Submit example_submission,
        Sleep 1500, Query ''op-123'' ''secret'',
        Sleep 1500, Query ''op-123'' ''secret'',
        Respond 500 (JObj [(''error'', JStr ''Azure DI exception''),
                           (''details'', JStr ''FetchError: socket hang up'')])]
   \<and> code_of (resp_text (JStr ''Page 1: hello'')) = Some 200
   \<and> error_label (resp_failed failed_body) = Some (JStr ''Azure DI failed'')
   \<and> error_label resp_timeout = Some (JStr ''Azure DI timeout'')
   \<and> submissions (ocr_handler example_config \<lparr> req_file = None \<rparr> (accepted_with (Some ''op-123''))
       (answers_after 1 (PollThrows (Thrown ''FetchError: socket hang up'')))) = []
   \<and> responses (ocr_handler example_config \<lparr> req_file = None \<rparr> (accepted_with (Some ''op-123''))
       (answers_after 1 (PollThrows (Thrown ''FetchError: socket hang up''))))
     = [Respond 400 (JObj [(''error'', JStr ''No file uploaded'')])]"
proof -
  let ?t = "answers_after 1 (PollThrows (Thrown ''FetchError: socket hang up''))"
  have "poll ''op-123'' ''secret'' ?t [Submit example_submission]
      = (Threw (Thrown ''FetchError: socket hang up''),
         [Submit example_submission] @ rounds ''op-123'' ''secret'' (Suc 1))"
    by (rule poll_throws) (simp_all add: running_answers_after, simp add: answers_after_def)
  then have "ocr_handler example_config example_request (accepted_with (Some ''op-123'')) ?t
      = [Submit example_submission,
         Sleep 1500, Query ''op-123'' ''secret'',
         Sleep 1500, Query ''op-123'' ''secret'',
         Respond 500 (JObj [(''error'', JStr ''Azure DI exception''),
                            (''details'', JStr ''FetchError: socket hang up'')])]"
    using handler_after_submit [OF submit_example, of ?t]
    by (simp add: rounds_def resp_exception_def)
  moreover have "ocr_handler example_config \<lparr> req_file = None \<rparr> (accepted_with (Some ''op-123'')) ?t
      = [Respond 400 (JObj [(''error'', JStr ''No file uploaded'')])]"
    by (simp add: ocr_handler_def try_block_def submit_def example_config_def resp_no_file_def)
  ultimately show ?thesis
    by (simp add: submit_example resp_text_def resp_failed_def resp_timeout_def failed_body_def
        submissions_def responses_def)
qed

text \<open>
  C10, as amended. When the first terminal answer, within the first 120, is
  \<^verbatim>\<open>succeeded\<close>, the response is always the 200 with a text, never an error, also when
  the answer has no \<^verbatim>\<open>analyzeResult\<close> or no \<^verbatim>\<open>content\<close>. The text is the empty
  string when the content is missing or falsy (\<^verbatim>\<open>null\<close>, \<^verbatim>\<open>false\<close>, 0, the empty
  string) and the content itself otherwise: a string that is not empty, but also a number,
  \<^verbatim>\<open>true\<close>, an array or an object, which the handler passes on as it is.
\<close>

theorem succeeded_text_or_empty:
  assumes "submit cfg req submitted = (Normal (opLocation, key), tr0)"
    and "k < 120"
    and "\<forall>j<k. running (provider j)"
    and "provider k = PollData d"
    and "has_status ''succeeded'' (provider k)"
  shows "last (ocr_handler cfg req submitted provider)
           = Respond 200 (JObj [(''text'',
               case content_of d of
                 None \<Rightarrow> JStr []
               | Some c \<Rightarrow>
                   if c \<in> {JNull, JBool False, JNum (Finite 0), JStr []} then JStr [] else c)])"
proof -
  have "poll opLocation key provider tr0
          = (Returned, tr0 @ rounds opLocation key (Suc k) @ [resp_text (extract_text (Some d))])"
    using assms(2-5) by (rule poll_succeeded)
  then have "last (ocr_handler cfg req submitted provider) = resp_text (extract_text (Some d))"
    using handler_after_submit [OF assms(1), of provider] by simp
  moreover have "extract_text (Some d)
      = (case content_of d of None \<Rightarrow> JStr []
         | Some c \<Rightarrow> if c \<in> {JNull, JBool False, JNum (Finite 0), JStr []} then JStr [] else c)"
    unfolding extract_text_content
    by (cases "content_of d") (simp_all add: truthy_iff)
  ultimately show ?thesis by (simp add: resp_text_def)
qed

text \<open>A succeeded answer with no result field: the text is empty.\<close>

theorem scenario_no_result_field:
  "content_of (JObj [(''status'', JStr ''succeeded'')]) = None
   \<and> last (ocr_handler example_config example_request (accepted_with (Some ''op-123''))
       (answers_after 0 (PollData (JObj [(''status'', JStr ''succeeded'')]))))
     = Respond 200 (JObj [(''text'', JStr [])])"
proof -
  let ?p = "answers_after 0 (PollData (JObj [(''status'', JStr ''succeeded'')]))"
  have none: "content_of (JObj [(''status'', JStr ''succeeded'')]) = None"
    by (simp add: content_of_def)
  have first: "?p 0 = PollData (JObj [(''status'', JStr ''succeeded'')])"
    by (simp add: answers_after_def)
  have status: "has_status ''succeeded'' (?p 0)"
    by (simp add: answers_after_def has_status_def)
  from succeeded_text_or_empty [OF submit_example, of 0 ?p "JObj [(''status'', JStr ''succeeded'')]"]
    first status none
  show ?thesis by simp
qed

text \<open>A content that is \<^verbatim>\<open>true\<close>: no string, and not replaced by the empty string.\<close>

theorem truthy_content_is_returned:
  "content_of (succeeded_body (JBool True)) = Some (JBool True)
   \<and> last (ocr_handler example_config example_request (accepted_with (Some ''op-123''))
       (answers_after 0 (PollData (succeeded_body (JBool True)))))
     = Respond 200 (JObj [(''text'', JBool True)])"
proof -
  let ?p = "answers_after 0 (PollData (succeeded_body (JBool True)))"
  have "poll ''op-123'' ''secret'' ?p [Submit example_submission]
      = (Returned, [Submit example_submission] @ rounds ''op-123'' ''secret'' (Suc 0)
           @ [resp_text (extract_text (Some (succeeded_body (JBool True))))])"
    by (rule poll_succeeded) (simp_all add: answers_after_def has_status_def succeeded_body_def)
  then have "last (ocr_handler example_config example_request (accepted_with (Some ''op-123'')) ?p)
      = Respond 200 (JObj [(''text'', JBool True)])"
    using handler_after_submit [OF submit_example, of ?p]
    by (simp add: extract_text_def succeeded_body_def resp_text_def)
  then show ?thesis by (simp add: content_of_def succeeded_body_def)
qed

end
